theory Spec2Isabelle
  imports Main "HOL-Library.Word"
begin

unbundle bit_operations_syntax

section \<open>Data model\<close>

text \<open>
  Package \<open>servers\<close> of go-core: a TCP accept loop (\<open>Server\<close>) and a per-socket
  connection (\<open>TCPConnection\<close>) with framed reads, verbatim writes, close hooks and a
  tick-scoped update buffer.

  Go values are modelled as follows. A \<open>[]byte\<close> is a list of 8-bit words, a Go
  \<open>error\<close> is identified with its message (\<open>err.Error()\<close>), \<open>nil\<close> is \<open>None\<close>.
  A close hook (\<open>func()\<close>) is an opaque callback: it is identified by a number and
  running it is an observable event; hooks are taken not to call back into the
  connection.
\<close>

type_synonym byte = "8 word"
type_synonym error = string
type_synonym hook = nat

text \<open>
  What the socket delivers to the buffered reader. \<open>Data d\<close> is a run of bytes that is
  available to one \<open>Read\<close> call; \<open>Fail e\<close> is a read error. A stream with nothing left
  reads as end of file.
\<close>

datatype chunk = Data "byte list" | Fail error

text \<open>
  \<open>net.Conn\<close>, as far as this package uses it: the remote address and the bytes the
  peer sends. The results of \<open>Write\<close> and \<open>Close\<close> on the socket are inputs of the
  operations that call them (see \<open>WriteMessage\<close> and \<open>Close\<close>).
\<close>

record net_Conn =
  RemoteAddr :: string
  incoming :: "chunk list"

text \<open>
  The effects a connection has on the outside world, in the order they happen:
  calls on the socket and on the buffered reader, close hooks run, and entries passed
  to the per-connection logger.
\<close>

datatype event =
    ConnWrite "byte list"
  | ConnClose
  | ReaderRead nat
  | HookRun hook
  | LogInfo string
  | LogError error string

text \<open>
  \<open>type TCPConnection struct\<close>. The embedded \<open>*logging.ConnectionLogger\<close> is bound to
  the identifier and has no state of its own; what is logged through it is recorded
  in \<open>trace\<close>, together with every other effect. \<open>reader\<close> holds what the buffered
  reader has still to deliver. The field \<open>id\<close> is \<open>id_c\<close> here.
\<close>

record TCPConnection =
  Closed :: bool
  conn :: net_Conn
  reader :: "chunk list"
  id_c :: string
  closeFunctions :: "hook list"
  updates :: "byte list"
  trace :: "event list"

section \<open>Byte order\<close>

text \<open>\<open>binary.LittleEndian.PutUint32(b, v)\<close> on a 4-byte slice: the bytes it leaves in \<open>b\<close>.\<close>

definition PutUint32 :: "32 word \<Rightarrow> byte list" where
  "PutUint32 v = [ucast v, ucast (drop_bit 8 v), ucast (drop_bit 16 v), ucast (drop_bit 24 v)]"

text \<open>\<open>binary.LittleEndian.Uint16(b)\<close>: \<open>uint16(b[0]) | uint16(b[1])<<8\<close>.\<close>

definition Uint16 :: "byte list \<Rightarrow> 16 word" where
  "Uint16 b = (ucast (b ! 0) OR push_bit 8 (ucast (b ! 1)))"

section \<open>The buffered reader\<close>

text \<open>
  \<open>c.reader.Read(p)\<close> with \<open>len(p) = m\<close>: the bytes copied into the front of \<open>p\<close>, the
  error, and what is left of the stream. As \<open>bufio.Reader.Read\<close> documents, the bytes
  come from at most one run, so fewer than \<open>m\<close> bytes may be delivered with no error;
  bytes of the run that do not fit stay for the next call. A read into an empty slice
  delivers nothing and touches nothing.
\<close>

fun Read :: "nat \<Rightarrow> chunk list \<Rightarrow> (byte list \<times> error option) \<times> chunk list" where
  "Read m [] = (([], if m = 0 then None else Some ''EOF''), [])"
| "Read m (Fail e # cs) =
     (if m = 0 then (([], None), Fail e # cs) else (([], Some e), cs))"
| "Read m (Data d # cs) =
     (if m = 0 then (([], None), Data d # cs)
      else ((take m d, None), if length d \<le> m then cs else Data (drop m d) # cs))"

text \<open>
  \<open>make([]byte, m)\<close> after a \<open>Read\<close> has copied \<open>d\<close> into its front: the positions
  the read did not reach keep the zero they were allocated with.
\<close>

definition filled :: "nat \<Rightarrow> byte list \<Rightarrow> byte list" where
  "filled m d = take m d @ replicate (m - length d) 0"

section \<open>Connection operations\<close>

definition NewTCPConnection :: "string \<Rightarrow> net_Conn \<Rightarrow> TCPConnection" where
  "NewTCPConnection uid c =
     \<lparr>Closed = False, conn = c, reader = incoming c, id_c = uid,
      closeFunctions = [], updates = [], trace = []\<rparr>"

definition ID :: "TCPConnection \<Rightarrow> string" where
  "ID c = id_c c"

text \<open>
  \<open>Close\<close>. \<open>cres\<close> is what \<open>c.conn.Close()\<close> returns when this call reaches it.
\<close>

definition Close :: "error option \<Rightarrow> TCPConnection \<Rightarrow> error option \<times> TCPConnection" where
  "Close cres c =
     (if Closed c then (None, c)
      else
        let c1 = c\<lparr>trace := trace c @ [LogInfo ''Closing connection'']\<rparr>;
            c2 = c1\<lparr>Closed := True\<rparr>;
            c3 = c2\<lparr>trace := trace c2 @ map HookRun (closeFunctions c2)\<rparr>
        in (cres, c3\<lparr>trace := trace c3 @ [ConnClose]\<rparr>))"

definition OnClose :: "hook \<Rightarrow> TCPConnection \<Rightarrow> TCPConnection" where
  "OnClose f c = c\<lparr>closeFunctions := closeFunctions c @ [f]\<rparr>"

text \<open>
  \<open>WriteMessage\<close>. \<open>wres\<close> is the error \<open>c.conn.Write(p)\<close> returns in this call; the
  byte count it returns is dropped by the source.
\<close>

definition WriteMessage :: "byte list \<Rightarrow> error option \<Rightarrow> TCPConnection \<Rightarrow> error option \<times> TCPConnection" where
  "WriteMessage p wres c = (wres, c\<lparr>trace := trace c @ [ConnWrite p]\<rparr>)"

definition ReadMessage :: "TCPConnection \<Rightarrow> (byte list \<times> error option) \<times> TCPConnection" where
  "ReadMessage c =
     (case Read 2 (reader c) of ((d1, err1), r1) \<Rightarrow>
        let c1 = c\<lparr>reader := r1, trace := trace c @ [ReaderRead 2]\<rparr> in
        (case err1 of
           Some e \<Rightarrow> if Closed c1 then (([], None), c1) else (([], Some e), c1)
         | None \<Rightarrow>
             let n = unat (Uint16 (filled 2 d1)) in
             (case Read n r1 of ((d2, err2), r2) \<Rightarrow>
                let c2 = c1\<lparr>reader := r2, trace := trace c1 @ [ReaderRead n]\<rparr> in
                (case err2 of
                   Some e \<Rightarrow> (([], Some e), c2)
                 | None \<Rightarrow> ((filled n d2, None), c2)))))"

definition BufferUpdate :: "byte list \<Rightarrow> TCPConnection \<Rightarrow> TCPConnection" where
  "BufferUpdate s c = c\<lparr>updates := updates c @ s\<rparr>"

text \<open>
  \<open>Flush\<close>. \<open>wres\<close> is the result of the socket write inside \<open>WriteMessage\<close>, \<open>cres\<close>
  that of the socket release inside \<open>Close\<close>, should the call get there.
\<close>

definition Flush :: "32 word \<Rightarrow> error option \<Rightarrow> error option \<Rightarrow> TCPConnection \<Rightarrow> TCPConnection" where
  "Flush tick wres cres c =
     (if length (updates c) = 0 then c
      else
        let b = PutUint32 tick;
            b = b @ updates c;
            b = b @ [0]
        in (case WriteMessage b wres c of (err, c1) \<Rightarrow>
              (case err of
                 Some e \<Rightarrow>
                   if Closed c1 then c1
                   else
                     let c2 = c1\<lparr>trace := trace c1 @ [LogError e ''Failed to write updates'']\<rparr>;
                         c3 = snd (Close cres c2)
                     in c3\<lparr>updates := []\<rparr>
               | None \<Rightarrow> c1\<lparr>updates := []\<rparr>)))"

section \<open>The accept loop\<close>

text \<open>
  \<open>strings.Contains(s, substr)\<close>.
\<close>

fun strings_Contains :: "string \<Rightarrow> string \<Rightarrow> bool" where
  "strings_Contains [] substr = (substr = [])"
| "strings_Contains (x # xs) substr =
     (take (length substr) (x # xs) = substr \<or> strings_Contains xs substr)"

text \<open>
  \<open>Start\<close> runs beside the goroutine that calls \<open>Stop\<close> (which sets \<open>t.stopping\<close> and
  closes the channel) and beside the consumers of the \<open>Connections\<close> channel, so the
  fields of \<open>Server\<close> it reads are inputs here: \<open>addr\<close> is an argument of \<open>Start\<close>, and
  one \<open>round\<close> holds what one iteration of its loop observes of the rest: the value of \<open>t.stopping\<close> at the top of the iteration, the pair
  returned by \<open>t.listener.Accept()\<close>, the value of \<open>t.stopping\<close> after the accept, the
  identifier \<open>uuid.New()\<close> yields, and the fate of the send on the unbuffered channel.
\<close>

datatype chan_send = Received | ChanClosed | NoReceiver

record round =
  stopping_top :: bool
  accepted :: "net_Conn option \<times> error option"
  stopping_mid :: bool
  new_id :: string
  send :: chan_send

text \<open>
  The effects of the loop: entries passed to the process-wide logger, an accepted
  socket closed without being delivered, and a connection sent on the channel.
\<close>

datatype server_event =
    LoggedInfo string
  | LoggedError string
  | LoggedDebug string
  | AcceptedClose net_Conn
  | Sent TCPConnection

text \<open>
  How a call of \<open>Start\<close> ends: it returns, it panics (a method called on the nil
  \<open>net.Conn\<close>, a send on the closed channel), or it stays blocked (in \<open>Accept\<close> once
  the rounds are used up, or in a send no consumer takes).
\<close>

datatype outcome = Returned "error option" | Panic string | Blocked

definition nil_deref :: string where
  "nil_deref = ''invalid memory address or nil pointer dereference''"

text \<open>
  The \<open>for\<close> loop of \<open>Start\<close>. After a failed accept that is not the closed-listener
  condition the source logs the error and goes on with the rest of the iteration,
  where \<open>conn\<close> is what \<open>Accept\<close> returned beside the error.
\<close>

fun accept_loop :: "round list \<Rightarrow> server_event list \<Rightarrow> outcome \<times> server_event list" where
  "accept_loop [] tr = (Blocked, tr)"
| "accept_loop (r # rs) tr =
     (if stopping_top r then (Returned None, tr)
      else
        (case accepted r of (c, err) \<Rightarrow>
           (case (case err of
                    None \<Rightarrow> Some tr
                  | Some e \<Rightarrow>
                      if strings_Contains e ''use of closed network connection'' then None
                      else Some (tr @ [LoggedError e])) of
              None \<Rightarrow> (Returned None, tr)
            | Some tr1 \<Rightarrow>
                if stopping_mid r then
                  (case c of
                     None \<Rightarrow> (Panic nil_deref, tr1)
                   | Some s \<Rightarrow> (Returned None, tr1 @ [AcceptedClose s]))
                else
                  (case c of
                     None \<Rightarrow> (Panic nil_deref, tr1)
                   | Some s \<Rightarrow>
                       let tr2 = tr1 @ [LoggedDebug (''Client connected: '' @ RemoteAddr s)] in
                       (case send r of
                          Received \<Rightarrow> accept_loop rs (tr2 @ [Sent (NewTCPConnection (new_id r) s)])
                        | ChanClosed \<Rightarrow> (Panic ''send on closed channel'', tr2)
                        | NoReceiver \<Rightarrow> (Blocked, tr2))))))"

text \<open>
  \<open>Start\<close>. \<open>listen_res\<close> is the error of \<open>net.Listen("tcp", t.addr)\<close>.
\<close>

definition Start :: "string \<Rightarrow> error option \<Rightarrow> round list \<Rightarrow> outcome \<times> server_event list" where
  "Start addr listen_res rounds =
     (case listen_res of
        Some e \<Rightarrow> (Returned (Some e), [])
      | None \<Rightarrow> accept_loop rounds [LoggedInfo (''TCP Server listening on '' @ addr)])"

section \<open>Notions the properties are stated with\<close>

text \<open>
  The \<open>k\<close> little-endian bytes of a number: least significant byte first.
\<close>

fun le_bytes :: "nat \<Rightarrow> nat \<Rightarrow> byte list" where
  "le_bytes 0 n = []"
| "le_bytes (Suc k) n = of_nat (n mod 256) # le_bytes k (n div 256)"

text \<open>
  Modelled from the spec: the length-prefixed frame of the wire format, a 2-byte
  unsigned little-endian length that counts the body bytes only, then the body. The
  package has no function that writes this frame; \<open>ReadMessage\<close> reads it.
\<close>

definition frame :: "byte list \<Rightarrow> byte list" where
  "frame body = le_bytes 2 (length body) @ body"

text \<open>The byte sequences handed to the socket's \<open>Write\<close>, in order.\<close>

fun written :: "event list \<Rightarrow> byte list list" where
  "written [] = []"
| "written (ConnWrite p # es) = p # written es"
| "written (e # es) = written es"

text \<open>The sizes of the slices handed to the buffered reader's \<open>Read\<close>, in order.\<close>

fun read_calls :: "event list \<Rightarrow> nat list" where
  "read_calls [] = []"
| "read_calls (ReaderRead m # es) = m # read_calls es"
| "read_calls (e # es) = read_calls es"

text \<open>Calling \<open>BufferUpdate\<close> once for each element of a list, first to last.\<close>

definition buffer_all :: "byte list list \<Rightarrow> TCPConnection \<Rightarrow> TCPConnection" where
  "buffer_all ss c = foldl (\<lambda>c s. BufferUpdate s c) c ss"

text \<open>Registering hooks with \<open>OnClose\<close>, first to last.\<close>

definition register_all :: "hook list \<Rightarrow> TCPConnection \<Rightarrow> TCPConnection" where
  "register_all fs c = foldl (\<lambda>c f. OnClose f c) c fs"

section \<open>Concrete inputs\<close>

text \<open>A peer that sends nothing, and a new connection to it.\<close>

definition quiet_peer :: net_Conn where
  "quiet_peer = \<lparr>RemoteAddr = ''10.0.0.7:51234'', incoming = []\<rparr>"

definition fresh :: TCPConnection where
  "fresh = NewTCPConnection ''c-1'' quiet_peer"

text \<open>
  A peer that sends the frame of the body \<open>[1, 2]\<close>, which is \<open>[2, 0, 1, 2]\<close>; the
  network hands it to the reader in two runs, the second holding the last byte.
\<close>

definition split_peer :: net_Conn where
  "split_peer = \<lparr>RemoteAddr = ''10.0.0.7:51234'', incoming = [Data [2, 0, 1], Data [2]]\<rparr>"

text \<open>A peer whose frame \<open>[2, 0, 1, 2]\<close> arrives whole, followed by a read error.\<close>

definition whole_peer :: net_Conn where
  "whole_peer = \<lparr>RemoteAddr = ''10.0.0.7:51234'',
                  incoming = [Data [2, 0, 1, 2], Fail ''connection reset by peer'']\<rparr>"

text \<open>A peer that announces three body bytes and then resets the connection.\<close>

definition reset_peer :: net_Conn where
  "reset_peer = \<lparr>RemoteAddr = ''10.0.0.7:51234'',
                  incoming = [Data [3, 0], Fail ''connection reset by peer'']\<rparr>"

text \<open>
  One iteration of the accept loop in which \<open>Accept\<close> fails with a transient error (the
  process is out of file descriptors) and no stop has been requested.
\<close>

definition transient_round :: round where
  "transient_round =
     \<lparr>stopping_top = False,
      accepted = (None, Some ''accept tcp 0.0.0.0:9000: accept4: too many open files''),
      stopping_mid = False, new_id = ''c-1'', send = Received\<rparr>"

text \<open>An iteration that accepts a socket and hands the connection to a consumer.\<close>

definition good_round :: round where
  "good_round =
     \<lparr>stopping_top = False, accepted = (Some quiet_peer, None),
      stopping_mid = False, new_id = ''c-2'', send = Received\<rparr>"

section \<open>Little-endian encoding and decoding\<close>

lemma ucast_drop_byte:
  "(ucast (drop_bit k (v :: 'a::len word)) :: byte) = of_nat (unat v div 2 ^ k mod 256)"
proof -
  have "unat (ucast (drop_bit k v) :: byte) = take_bit 8 (drop_bit k (unat v))"
    by (simp add: unsigned_ucast_eq unat_drop_bit_eq)
  also have "\<dots> = unat v div 2 ^ k mod 256"
    by (simp add: take_bit_eq_mod drop_bit_eq_div)
  finally show ?thesis
    by (simp add: word_unat_eq_iff unat_of_nat)
qed

lemma le_bytes_2: "le_bytes 2 n = [of_nat (n mod 256), of_nat (n div 256 mod 256)]"
proof -
  have "(2::nat) = Suc (Suc 0)" by simp
  then show ?thesis by (simp only: le_bytes.simps)
qed

lemma le_bytes_4:
  "le_bytes 4 n = [of_nat (n mod 256), of_nat (n div 256 mod 256),
     of_nat (n div 256 div 256 mod 256), of_nat (n div 256 div 256 div 256 mod 256)]"
proof -
  have "(4::nat) = Suc (Suc (Suc (Suc 0)))" by simp
  then show ?thesis by (simp only: le_bytes.simps)
qed

lemma length_le_bytes: "length (le_bytes k n) = k"
  by (induction k arbitrary: n) simp_all

text \<open>\<open>PutUint32\<close> writes the four little-endian bytes of its argument.\<close>

lemma PutUint32_le: "PutUint32 v = le_bytes 4 (unat v)"
proof -
  have b0: "(ucast v :: byte) = of_nat (unat v mod 256)"
    using ucast_drop_byte [of 0 v] by simp
  have b1: "(ucast (drop_bit 8 v) :: byte) = of_nat (unat v div 256 mod 256)"
    using ucast_drop_byte [of 8 v] by simp
  have b2: "(ucast (drop_bit 16 v) :: byte) = of_nat (unat v div 256 div 256 mod 256)"
    using ucast_drop_byte [of 16 v] by (simp add: div_mult2_eq [symmetric])
  have b3: "(ucast (drop_bit 24 v) :: byte) = of_nat (unat v div 256 div 256 div 256 mod 256)"
    using ucast_drop_byte [of 24 v] by (simp add: div_mult2_eq [symmetric])
  show ?thesis
    unfolding PutUint32_def le_bytes_4 b0 b1 b2 b3 ..
qed

lemma length_PutUint32: "length (PutUint32 v) = 4"
  by (simp add: PutUint32_def)

lemma Uint16_bytes: "unat (Uint16 [lo, hi]) = unat lo + 256 * unat hi"
proof -
  have lo: "unat lo < 256" and hi: "unat hi < 256"
    using unsigned_less [of lo, where ?'a = nat] unsigned_less [of hi, where ?'a = nat]
    by simp_all
  have "(ucast lo :: 16 word) AND push_bit 8 (ucast hi) = 0"
    by (auto simp add: bit_eq_iff bit_simps dest: bit_imp_le_length)
  then have "(ucast lo :: 16 word) OR push_bit 8 (ucast hi) = ucast lo + push_bit 8 (ucast hi)"
    by (rule disjunctive_add_eq_or [symmetric])
  then have "unat (Uint16 [lo, hi]) =
      (unat (ucast lo :: 16 word) + unat (push_bit 8 (ucast hi :: 16 word))) mod 65536"
    by (simp add: Uint16_def unat_word_ariths)
  also have "unat (ucast lo :: 16 word) = unat lo"
    using lo by (simp add: unsigned_ucast_eq take_bit_eq_mod)
  also have "unat (push_bit 8 (ucast hi :: 16 word)) = 256 * unat hi"
  proof -
    have "unat (push_bit 8 (ucast hi :: 16 word)) =
        take_bit 16 (push_bit 8 (unat (ucast hi :: 16 word)))"
      by (simp only: unsigned_push_bit_eq) simp
    also have "unat (ucast hi :: 16 word) = unat hi"
      using hi by (simp add: unsigned_ucast_eq take_bit_eq_mod)
    also have "take_bit 16 (push_bit 8 (unat hi)) = 256 * unat hi"
      using hi by (simp add: take_bit_eq_mod push_bit_eq_mult)
    finally show ?thesis .
  qed
  finally show ?thesis
    using lo hi by simp
qed

text \<open>Decoding a two-byte little-endian length gives the length back, up to 65535.\<close>

lemma Uint16_le_bytes: "n < 65536 \<Longrightarrow> unat (Uint16 (le_bytes 2 n)) = n"
  by (simp add: le_bytes_2 Uint16_bytes unat_of_nat)

section \<open>Traces and repeated calls\<close>

lemma written_append: "written (xs @ ys) = written xs @ written ys"
  by (induction xs rule: written.induct) simp_all

lemma written_hooks: "written (map HookRun fs) = []"
  by (induction fs) simp_all

lemma read_calls_append: "read_calls (xs @ ys) = read_calls xs @ read_calls ys"
  by (induction xs rule: read_calls.induct) simp_all

lemma buffer_all_eq: "buffer_all ss c = c\<lparr>updates := updates c @ concat ss\<rparr>"
  unfolding buffer_all_def
  by (induction ss arbitrary: c) (simp_all add: BufferUpdate_def)

lemma register_all_eq: "register_all fs c = c\<lparr>closeFunctions := closeFunctions c @ fs\<rparr>"
  unfolding register_all_def
  by (induction fs arbitrary: c) (simp_all add: OnClose_def)

section \<open>The cases of \<open>Flush\<close>\<close>

lemma Flush_empty: "updates c = [] \<Longrightarrow> Flush tick wres cres c = c"
  by (simp add: Flush_def)

lemma Flush_ok:
  "updates c \<noteq> [] \<Longrightarrow>
   Flush tick None cres c =
     c\<lparr>trace := trace c @ [ConnWrite (PutUint32 tick @ updates c @ [0])], updates := []\<rparr>"
  by (simp add: Flush_def WriteMessage_def)

lemma Flush_failed_open:
  "updates c \<noteq> [] \<Longrightarrow> \<not> Closed c \<Longrightarrow>
   Flush tick (Some e) cres c =
     c\<lparr>trace := trace c @ [ConnWrite (PutUint32 tick @ updates c @ [0]),
            LogError e ''Failed to write updates'', LogInfo ''Closing connection'']
            @ map HookRun (closeFunctions c) @ [ConnClose],
       Closed := True, updates := []\<rparr>"
  by (simp add: Flush_def WriteMessage_def Close_def)

lemma Flush_failed_closed:
  "updates c \<noteq> [] \<Longrightarrow> Closed c \<Longrightarrow>
   Flush tick (Some e) cres c =
     c\<lparr>trace := trace c @ [ConnWrite (PutUint32 tick @ updates c @ [0])]\<rparr>"
  by (simp add: Flush_def WriteMessage_def)

lemma Flush_written:
  "updates c \<noteq> [] \<Longrightarrow>
   written (trace (Flush tick wres cres c)) =
     written (trace c) @ [PutUint32 tick @ updates c @ [0]]"
proof (cases wres)
  case None
  assume "updates c \<noteq> []"
  with None show ?thesis
    by (simp add: Flush_ok written_append)
next
  case (Some e)
  assume "updates c \<noteq> []"
  with Some show ?thesis
    by (cases "Closed c")
      (simp_all add: Flush_failed_open Flush_failed_closed written_append written_hooks)
qed

section \<open>Flush\<close>

text \<open>
  C1. Take a connection whose update buffer is empty (a new one, or one just flushed)
  and call \<open>BufferUpdate\<close> with the byte sequences \<open>ss\<close>, first to last, so that the
  buffer is not empty. The buffer then holds the concatenation of \<open>ss\<close> in order, and
  \<open>Flush tick\<close> hands the socket exactly one more byte sequence, whatever the write
  returns: the four little-endian bytes of \<open>tick\<close>, the buffer contents, and one zero
  byte. When the write succeeds the buffer is empty afterwards.
\<close>

theorem Flush_sends_tick_buffer_terminator:
  "updates c0 = [] \<Longrightarrow> c = buffer_all ss c0 \<Longrightarrow> updates c \<noteq> [] \<Longrightarrow>
     updates c = concat ss \<and>
     written (trace (Flush tick wres cres c)) =
       written (trace c) @ [le_bytes 4 (unat tick) @ concat ss @ [0]] \<and>
     updates (Flush tick None cres c) = []"
  by (simp add: buffer_all_eq Flush_written Flush_ok PutUint32_le [symmetric])

theorem Flush_sends_tick_buffer_terminator_witness:
  "updates fresh = [] \<and> updates (buffer_all [[1], [2]] fresh) \<noteq> [] \<and>
   updates (buffer_all [[1], [2]] fresh) = [1, 2] \<and>
   written (trace (Flush 7 None None (buffer_all [[1], [2]] fresh))) = [[7, 0, 0, 0, 1, 2, 0]] \<and>
   updates (Flush 7 None None (buffer_all [[1], [2]] fresh)) = []"
  using Flush_sends_tick_buffer_terminator
    [of fresh "buffer_all [[1], [2]] fresh" "[[1], [2]]" 7 None None]
  by (simp add: fresh_def NewTCPConnection_def buffer_all_eq le_bytes_4)

text \<open>
  C3, as stated: the bytes \<open>Flush\<close> hands to the socket are the length-prefixed frame of
  the tick-payload-terminator structure. It fails for the buffer \<open>[1, 2]\<close> and tick 1:
  the socket receives the seven bytes of the structure, which are not its frame and
  do not begin with the two little-endian bytes of 7.
\<close>

theorem Flush_length_prefix_counterexample:
  "written (trace (Flush 1 None None (BufferUpdate [1, 2] fresh))) = [[1, 0, 0, 0, 1, 2, 0]] \<and>
   written (trace (Flush 1 None None (BufferUpdate [1, 2] fresh))) \<noteq>
     written (trace (BufferUpdate [1, 2] fresh)) @
       [frame (le_bytes 4 (unat (1 :: 32 word)) @ updates (BufferUpdate [1, 2] fresh) @ [0])] \<and>
   take 2 (last (written (trace (Flush 1 None None (BufferUpdate [1, 2] fresh))))) \<noteq>
     le_bytes 2 (length (le_bytes 4 (unat (1 :: 32 word)) @ updates (BufferUpdate [1, 2] fresh) @ [0]))"
  by (simp add: fresh_def NewTCPConnection_def BufferUpdate_def Flush_ok PutUint32_def
      frame_def le_bytes_2 le_bytes_4)

text \<open>
  C3, amended: \<open>WriteMessage\<close> hands its argument to the socket as it is and returns the
  socket's result, and \<open>Flush\<close> on a non-empty buffer hands the socket the
  tick-payload-terminator structure itself, with no length prefix: the bytes on the
  wire begin with the four little-endian bytes of the tick and number five more than
  the buffer.
\<close>

theorem Flush_sends_structure_unframed:
  "updates c \<noteq> [] \<Longrightarrow>
     WriteMessage p wres c = (wres, c\<lparr>trace := trace c @ [ConnWrite p]\<rparr>) \<and>
     (\<exists>w. written (trace (Flush tick wres cres c)) = written (trace c) @ [w] \<and>
          w = le_bytes 4 (unat tick) @ updates c @ [0] \<and>
          take 4 w = le_bytes 4 (unat tick) \<and>
          length w = length (updates c) + 5)"
  by (simp add: WriteMessage_def Flush_written PutUint32_le [symmetric] length_PutUint32)

theorem Flush_sends_structure_unframed_witness:
  "updates (BufferUpdate [1, 2] fresh) \<noteq> [] \<and>
   fst (WriteMessage [9] None (BufferUpdate [1, 2] fresh)) = None \<and>
   written (trace (snd (WriteMessage [9] None (BufferUpdate [1, 2] fresh)))) = [[9]] \<and>
   written (trace (Flush 1 None None (BufferUpdate [1, 2] fresh))) = [[1, 0, 0, 0, 1, 2, 0]]"
  using Flush_sends_structure_unframed [of "BufferUpdate [1, 2] fresh" "[9]" None 1 None]
  by (simp add: fresh_def NewTCPConnection_def BufferUpdate_def le_bytes_4)

text \<open>
  C4, as stated: after \<open>Flush\<close> on a non-empty buffer the buffer is empty in every
  outcome. It fails on a connection that is already closed, with \<open>[1, 2]\<close> buffered,
  whose socket write fails: \<open>Flush\<close> returns from the guard on the closed flag and the
  buffer still holds \<open>[1, 2]\<close>.
\<close>

theorem Flush_failed_closed_counterexample:
  "Closed (BufferUpdate [1, 2] (snd (Close None fresh))) \<and>
   updates (BufferUpdate [1, 2] (snd (Close None fresh))) = [1, 2] \<and>
   updates (Flush 7 (Some ''write tcp 10.0.0.7:51234: use of closed network connection'') None
              (BufferUpdate [1, 2] (snd (Close None fresh)))) = [1, 2] \<and>
   updates (Flush 7 (Some ''write tcp 10.0.0.7:51234: use of closed network connection'') None
              (BufferUpdate [1, 2] (snd (Close None fresh)))) \<noteq> []"
  by (simp add: fresh_def NewTCPConnection_def BufferUpdate_def Close_def Flush_def
      WriteMessage_def)

text \<open>
  C4, amended. After \<open>Flush\<close> on a non-empty buffer the buffer is empty when the write
  succeeded, and when it failed on a connection that was open: the failure is then
  logged and the connection closed by the steps of \<open>Close\<close> (hooks in order, socket
  released). When the write failed on a connection that was already closed, \<open>Flush\<close>
  returns at once: nothing is logged, and the buffer keeps what it held.
\<close>

theorem Flush_buffer_afterwards:
  "updates c \<noteq> [] \<Longrightarrow>
     (wres = None \<longrightarrow> updates (Flush tick wres cres c) = []) \<and>
     (wres = Some e \<and> \<not> Closed c \<longrightarrow>
        updates (Flush tick wres cres c) = [] \<and> Closed (Flush tick wres cres c) \<and>
        trace (Flush tick wres cres c) =
          trace c @ [ConnWrite (PutUint32 tick @ updates c @ [0]),
            LogError e ''Failed to write updates'', LogInfo ''Closing connection'']
          @ map HookRun (closeFunctions c) @ [ConnClose]) \<and>
     (wres = Some e \<and> Closed c \<longrightarrow>
        updates (Flush tick wres cres c) = updates c \<and>
        Flush tick wres cres c =
          c\<lparr>trace := trace c @ [ConnWrite (PutUint32 tick @ updates c @ [0])]\<rparr>)"
  by (simp add: Flush_ok Flush_failed_open Flush_failed_closed)

theorem Flush_buffer_afterwards_witness:
  "updates (BufferUpdate [1, 2] (OnClose 3 fresh)) \<noteq> [] \<and>
   \<not> Closed (BufferUpdate [1, 2] (OnClose 3 fresh)) \<and>
   updates (Flush 7 None None (BufferUpdate [1, 2] (OnClose 3 fresh))) = [] \<and>
   updates (Flush 7 (Some ''broken pipe'') None (BufferUpdate [1, 2] (OnClose 3 fresh))) = [] \<and>
   Closed (Flush 7 (Some ''broken pipe'') None (BufferUpdate [1, 2] (OnClose 3 fresh))) \<and>
   trace (Flush 7 (Some ''broken pipe'') None (BufferUpdate [1, 2] (OnClose 3 fresh))) =
     [ConnWrite [7, 0, 0, 0, 1, 2, 0], LogError ''broken pipe'' ''Failed to write updates'',
      LogInfo ''Closing connection'', HookRun 3, ConnClose] \<and>
   updates (BufferUpdate [1, 2] (snd (Close None fresh))) \<noteq> [] \<and>
   Closed (BufferUpdate [1, 2] (snd (Close None fresh))) \<and>
   updates (Flush 7 (Some ''broken pipe'') None (BufferUpdate [1, 2] (snd (Close None fresh)))) =
     [1, 2]"
  using
    Flush_buffer_afterwards [of "BufferUpdate [1, 2] (OnClose 3 fresh)" None 7 None "''broken pipe''"]
    Flush_buffer_afterwards [of "BufferUpdate [1, 2] (OnClose 3 fresh)" "Some ''broken pipe''" 7
      None "''broken pipe''"]
    Flush_buffer_afterwards [of "BufferUpdate [1, 2] (snd (Close None fresh))"
      "Some ''broken pipe''" 7 None "''broken pipe''"]
  by (simp add: fresh_def NewTCPConnection_def BufferUpdate_def OnClose_def Close_def
      PutUint32_def)

text \<open>
  C9. With an empty update buffer \<open>Flush\<close> returns the connection as it was, whatever
  the tick and whatever the socket would have answered: no event is added (so nothing
  is written), and buffer, closed flag, socket, reader and hooks are the same. A new
  connection is such a connection, and so is one after a flush whose write succeeded.
\<close>

theorem Flush_empty_buffer_noop:
  "updates c = [] \<Longrightarrow>
     Flush tick wres cres c = c \<and>
     written (trace (Flush tick wres cres c)) = written (trace c)"
  by (simp add: Flush_empty)

theorem Flush_empty_buffer_noop_witness:
  "updates fresh = [] \<and> Flush 7 (Some ''broken pipe'') None fresh = fresh \<and>
   written (trace (Flush 7 (Some ''broken pipe'') None fresh)) = []"
  using Flush_empty_buffer_noop [of fresh 7 "Some ''broken pipe''" None]
  by (simp add: fresh_def NewTCPConnection_def)

lemma Flush_new_connection: "Flush tick wres cres (NewTCPConnection uid s) = NewTCPConnection uid s"
  by (simp add: Flush_empty NewTCPConnection_def)

lemma Flush_after_successful_Flush:
  "Flush tick' wres cres' (Flush tick None cres c) = Flush tick None cres c"
  by (cases "updates c = []") (simp_all add: Flush_empty Flush_ok)

section \<open>Close and the closed state\<close>

lemma Close_closed: "Closed c \<Longrightarrow> Close cres c = (None, c)"
  by (simp add: Close_def)

lemma Close_open:
  "\<not> Closed c \<Longrightarrow>
   Close cres c =
     (cres, c\<lparr>Closed := True,
              trace := trace c @ [LogInfo ''Closing connection'']
                @ map HookRun (closeFunctions c) @ [ConnClose]\<rparr>)"
  by (simp add: Close_def)

lemma Closed_after_Close: "Closed (snd (Close cres c))"
  by (simp add: Close_def)

lemma later_Closes: "Closed c \<Longrightarrow> foldl (\<lambda>c r. snd (Close r c)) c rs = c"
  by (induction rs) (simp_all add: Close_closed)

text \<open>
  C6. On an open connection on which the hooks \<open>fs\<close> have been registered with
  \<open>OnClose\<close>, after those it already had, \<open>Close\<close> sets the closed flag, logs, runs
  every registered hook once in the order of registration, releases the socket last,
  and returns what the release returned. The connection is closed afterwards; every
  later \<open>Close\<close> returns no error and changes nothing, however many follow.
\<close>

theorem Close_idempotent:
  "\<not> Closed c \<Longrightarrow> c1 = register_all fs c \<Longrightarrow> c2 = snd (Close cres c1) \<Longrightarrow>
     Close cres c1 =
       (cres, c1\<lparr>Closed := True,
                 trace := trace c @ [LogInfo ''Closing connection'']
                   @ map HookRun (closeFunctions c @ fs) @ [ConnClose]\<rparr>) \<and>
     Closed c2 \<and>
     Close cres' c2 = (None, c2) \<and>
     foldl (\<lambda>c r. snd (Close r c)) c2 rs = c2"
  by (simp add: register_all_eq Close_open Close_closed later_Closes)

theorem Close_idempotent_witness:
  "\<not> Closed fresh \<and>
   fst (Close (Some ''close tcp: broken pipe'') (register_all [3, 4] fresh)) =
     Some ''close tcp: broken pipe'' \<and>
   trace (snd (Close (Some ''close tcp: broken pipe'') (register_all [3, 4] fresh))) =
     [LogInfo ''Closing connection'', HookRun 3, HookRun 4, ConnClose] \<and>
   Closed (snd (Close (Some ''close tcp: broken pipe'') (register_all [3, 4] fresh))) \<and>
   Close (Some ''close tcp: broken pipe'')
       (snd (Close (Some ''close tcp: broken pipe'') (register_all [3, 4] fresh))) =
     (None, snd (Close (Some ''close tcp: broken pipe'') (register_all [3, 4] fresh)))"
  using Close_idempotent [of fresh "register_all [3, 4] fresh" "[3, 4]"
      "snd (Close (Some ''close tcp: broken pipe'') (register_all [3, 4] fresh))"
      "Some ''close tcp: broken pipe''" "Some ''close tcp: broken pipe''" "[]"]
  by (simp add: fresh_def NewTCPConnection_def register_all_eq Close_def)

text \<open>
  C8, as stated: on a closed connection \<open>BufferUpdate\<close> does not change the update
  buffer. It fails on a new connection that has been closed: \<open>BufferUpdate [1]\<close> leaves
  \<open>[1]\<close> in its buffer.
\<close>

theorem BufferUpdate_closed_counterexample:
  "Closed (snd (Close None fresh)) \<and>
   updates (BufferUpdate [1] (snd (Close None fresh))) = [1] \<and>
   updates (BufferUpdate [1] (snd (Close None fresh))) \<noteq> updates (snd (Close None fresh))"
  by (simp add: fresh_def NewTCPConnection_def Close_def BufferUpdate_def)

text \<open>
  C8, amended. On a closed connection: \<open>Close\<close> does nothing and returns no error;
  \<open>WriteMessage\<close> still hands its bytes to the socket and returns the socket's answer
  unchanged; \<open>BufferUpdate\<close> appends to the buffer as on an open connection; \<open>Flush\<close>
  does nothing when the buffer is empty and otherwise hands the socket one
  tick-payload-terminator write, and whatever the socket answers it logs nothing,
  runs no hook, does not release the socket again and leaves the connection closed.
\<close>

theorem closed_connection_operations:
  "Closed c \<Longrightarrow>
     Close cres c = (None, c) \<and>
     WriteMessage p wres c = (wres, c\<lparr>trace := trace c @ [ConnWrite p]\<rparr>) \<and>
     BufferUpdate s c = c\<lparr>updates := updates c @ s\<rparr> \<and>
     (updates c = [] \<longrightarrow> Flush tick wres cres c = c) \<and>
     trace (Flush tick wres cres c) =
       (if updates c = [] then trace c
        else trace c @ [ConnWrite (PutUint32 tick @ updates c @ [0])]) \<and>
     Closed (Flush tick wres cres c) \<and>
     closeFunctions (Flush tick wres cres c) = closeFunctions c"
proof -
  assume closed: "Closed c"
  have flush: "trace (Flush tick wres cres c) =
       (if updates c = [] then trace c
        else trace c @ [ConnWrite (PutUint32 tick @ updates c @ [0])]) \<and>
     Closed (Flush tick wres cres c) \<and>
     closeFunctions (Flush tick wres cres c) = closeFunctions c"
  proof (cases "updates c = []")
    case True
    with closed show ?thesis by (simp add: Flush_empty)
  next
    case False
    with closed show ?thesis
      by (cases wres) (simp_all add: Flush_ok Flush_failed_closed)
  qed
  from closed have "Close cres c = (None, c)"
    by (rule Close_closed)
  moreover have "WriteMessage p wres c = (wres, c\<lparr>trace := trace c @ [ConnWrite p]\<rparr>)"
    by (simp add: WriteMessage_def)
  moreover have "BufferUpdate s c = c\<lparr>updates := updates c @ s\<rparr>"
    by (simp add: BufferUpdate_def)
  moreover have "updates c = [] \<longrightarrow> Flush tick wres cres c = c"
    by (simp add: Flush_empty)
  ultimately show ?thesis
    using flush by blast
qed

theorem closed_connection_operations_witness:
  "Closed (snd (Close None fresh)) \<and> updates (snd (Close None fresh)) = [] \<and>
   Flush 7 (Some ''use of closed network connection'') None (snd (Close None fresh)) =
     snd (Close None fresh) \<and>
   updates (BufferUpdate [1] (snd (Close None fresh))) = [1] \<and>
   fst (WriteMessage [9] (Some ''use of closed network connection'') (snd (Close None fresh))) =
     Some ''use of closed network connection'' \<and>
   Close None (snd (Close None fresh)) = (None, snd (Close None fresh))"
  using closed_connection_operations [of "snd (Close None fresh)" None "[9]"
      "Some ''use of closed network connection''" "[1]" 7]
  by (simp add: fresh_def NewTCPConnection_def Close_def)

section \<open>ReadMessage\<close>

lemma length_Read: "length (fst (fst (Read m cs))) \<le> m"
  by (induction m cs rule: Read.induct) simp_all

lemma Read_zero: "Read 0 cs = (([], None), cs)"
proof (cases cs)
  case Nil
  then show ?thesis by simp
next
  case (Cons x xs)
  then show ?thesis by (cases x) simp_all
qed

lemma filled_full: "length d = m \<Longrightarrow> filled m d = d"
  by (simp add: filled_def)

lemma filled_short: "length d \<le> m \<Longrightarrow> filled m d = d @ replicate (m - length d) 0"
  by (simp add: filled_def)

lemma length_filled: "length (filled m d) = m"
  by (simp add: filled_def)

lemma ReadMessage_prefix_failed:
  "Read 2 (reader c) = ((d1, Some e), r1) \<Longrightarrow>
   ReadMessage c =
     (([], if Closed c then None else Some e),
      c\<lparr>reader := r1, trace := trace c @ [ReaderRead 2]\<rparr>)"
  by (simp add: ReadMessage_def)

lemma ReadMessage_body_failed:
  "Read 2 (reader c) = ((d1, None), r1) \<Longrightarrow>
   Read (unat (Uint16 (filled 2 d1))) r1 = ((d2, Some e), r2) \<Longrightarrow>
   ReadMessage c =
     (([], Some e),
      c\<lparr>reader := r2,
        trace := trace c @ [ReaderRead 2, ReaderRead (unat (Uint16 (filled 2 d1)))]\<rparr>)"
  by (simp add: ReadMessage_def Let_def)

lemma ReadMessage_body_read:
  "Read 2 (reader c) = ((d1, None), r1) \<Longrightarrow>
   Read (unat (Uint16 (filled 2 d1))) r1 = ((d2, None), r2) \<Longrightarrow>
   ReadMessage c =
     ((filled (unat (Uint16 (filled 2 d1))) d2, None),
      c\<lparr>reader := r2,
        trace := trace c @ [ReaderRead 2, ReaderRead (unat (Uint16 (filled 2 d1)))]\<rparr>)"
  by (simp add: ReadMessage_def Let_def)

text \<open>
  C7. Let the read of the length prefix return the error \<open>err1\<close> and the read of the
  body, when it is reached, the error \<open>err2\<close>. If the prefix read fails on a closed
  connection, \<open>ReadMessage\<close> returns the empty result and no error. If it fails on an
  open connection, or if the body read fails (on an open or a closed connection), the
  error comes back to the caller with the empty result.
\<close>

theorem ReadMessage_read_failures:
  "Read 2 (reader c) = ((d1, err1), r1) \<Longrightarrow>
   Read (unat (Uint16 (filled 2 d1))) r1 = ((d2, err2), r2) \<Longrightarrow>
     (Closed c \<and> err1 = Some e \<longrightarrow> fst (ReadMessage c) = ([], None)) \<and>
     (\<not> Closed c \<and> err1 = Some e \<longrightarrow> fst (ReadMessage c) = ([], Some e)) \<and>
     (err1 = None \<and> err2 = Some e \<longrightarrow> fst (ReadMessage c) = ([], Some e))"
  by (auto simp add: ReadMessage_prefix_failed ReadMessage_body_failed)

theorem ReadMessage_read_failures_witness:
  "Closed (snd (Close None fresh)) \<and>
   Read 2 (reader (snd (Close None fresh))) = (([], Some ''EOF''), []) \<and>
   fst (ReadMessage (snd (Close None fresh))) = ([], None) \<and>
   \<not> Closed fresh \<and>
   Read 2 (reader fresh) = (([], Some ''EOF''), []) \<and>
   fst (ReadMessage fresh) = ([], Some ''EOF'') \<and>
   Read 2 (reader (NewTCPConnection ''c-1'' reset_peer)) =
     (([3, 0], None), [Fail ''connection reset by peer'']) \<and>
   Read 3 [Fail ''connection reset by peer''] = (([], Some ''connection reset by peer''), []) \<and>
   fst (ReadMessage (NewTCPConnection ''c-1'' reset_peer)) = ([], Some ''connection reset by peer'')"
proof -
  have r0: "Read 2 [] = (([], Some ''EOF''), [])"
    by simp
  have r1: "Read 2 [Data [3, 0], Fail ''connection reset by peer''] =
      (([3, 0], None), [Fail ''connection reset by peer''])"
    by simp
  have n: "unat (Uint16 (filled 2 [3, 0])) = 3"
    by (simp add: filled_def Uint16_bytes)
  have r2: "Read 3 [Fail ''connection reset by peer''] =
      (([], Some ''connection reset by peer''), [])"
    by simp
  have n0: "unat (Uint16 (filled 2 [])) = 0"
    by (simp add: filled_def numeral_2_eq_2 Uint16_bytes)
  have closed: "Closed (snd (Close None fresh))"
    by (simp add: Close_def)
  have "reader (snd (Close None fresh)) = []" and "reader fresh = []"
    and "\<not> Closed fresh"
    and "reader (NewTCPConnection ''c-1'' reset_peer) =
      [Data [3, 0], Fail ''connection reset by peer'']"
    by (simp_all add: fresh_def NewTCPConnection_def Close_def quiet_peer_def reset_peer_def)
  then show ?thesis
    using closed r0 r1 r2 n n0
      ReadMessage_read_failures [of "snd (Close None fresh)" "[]" "Some ''EOF''" "[]"
        "[]" None "[]" "''EOF''"]
      ReadMessage_read_failures [of fresh "[]" "Some ''EOF''" "[]"
        "[]" None "[]" "''EOF''"]
      ReadMessage_read_failures [of "NewTCPConnection ''c-1'' reset_peer" "[3, 0]" None
        "[Fail ''connection reset by peer'']" "[]" "Some ''connection reset by peer''" "[]"
        "''connection reset by peer''"]
    by simp
qed

text \<open>
  C10. \<open>ReadMessage\<close> calls the reader's \<open>Read\<close> exactly once with a slice of two
  bytes; when that read returns an error it calls it no more, and when it returns no
  error it calls it exactly once more, with a slice as long as the decoded prefix
  \<open>n\<close>, whatever the first read delivered and whatever the second returns. It never
  calls it a third time. So when the body read returns no error but fewer bytes than
  \<open>n\<close>, the result is still a body of \<open>n\<close> bytes and no error: the bytes that were
  delivered, then zeros in the positions that were not.
\<close>

theorem ReadMessage_one_read_each:
  "(Read 2 (reader c) = ((d0, Some e), r0) \<longrightarrow>
      read_calls (trace (snd (ReadMessage c))) = read_calls (trace c) @ [2] \<and>
      trace (snd (ReadMessage c)) = trace c @ [ReaderRead 2] \<and>
      reader (snd (ReadMessage c)) = r0) \<and>
   (Read 2 (reader c) = ((d1, None), r1) \<longrightarrow>
      read_calls (trace (snd (ReadMessage c))) =
        read_calls (trace c) @ [2, unat (Uint16 (filled 2 d1))] \<and>
      trace (snd (ReadMessage c)) =
        trace c @ [ReaderRead 2, ReaderRead (unat (Uint16 (filled 2 d1)))] \<and>
      reader (snd (ReadMessage c)) = snd (Read (unat (Uint16 (filled 2 d1))) r1)) \<and>
   (\<exists>ns. read_calls (trace (snd (ReadMessage c))) = read_calls (trace c) @ 2 # ns \<and>
         length ns \<le> 1) \<and>
   (Read 2 (reader c) = ((d1, None), r1) \<and> n = unat (Uint16 (filled 2 d1)) \<and>
    Read n r1 = ((d2, None), r2) \<and> length d2 < n \<longrightarrow>
      read_calls (trace (snd (ReadMessage c))) = read_calls (trace c) @ [2, n] \<and>
      fst (ReadMessage c) = (d2 @ replicate (n - length d2) 0, None) \<and>
      length (fst (fst (ReadMessage c))) = n \<and>
      reader (snd (ReadMessage c)) = r2)"
proof (intro conjI impI)
  assume p: "Read 2 (reader c) = ((d0, Some e), r0)"
  then show "read_calls (trace (snd (ReadMessage c))) = read_calls (trace c) @ [2]"
    and "trace (snd (ReadMessage c)) = trace c @ [ReaderRead 2]"
    and "reader (snd (ReadMessage c)) = r0"
    by (simp_all add: ReadMessage_prefix_failed read_calls_append)
next
  assume p: "Read 2 (reader c) = ((d1, None), r1)"
  obtain d err r where b: "Read (unat (Uint16 (filled 2 d1))) r1 = ((d, err), r)"
    by (metis surj_pair)
  have t: "trace (snd (ReadMessage c)) =
        trace c @ [ReaderRead 2, ReaderRead (unat (Uint16 (filled 2 d1)))] \<and>
      reader (snd (ReadMessage c)) = r"
  proof (cases err)
    case None
    with p b show ?thesis
      by (simp add: ReadMessage_body_read)
  next
    case (Some e')
    with p b show ?thesis
      by (simp add: ReadMessage_body_failed)
  qed
  from t show "trace (snd (ReadMessage c)) =
        trace c @ [ReaderRead 2, ReaderRead (unat (Uint16 (filled 2 d1)))]"
    by simp
  from t show "read_calls (trace (snd (ReadMessage c))) =
        read_calls (trace c) @ [2, unat (Uint16 (filled 2 d1))]"
    by (simp add: read_calls_append)
  from t b show "reader (snd (ReadMessage c)) = snd (Read (unat (Uint16 (filled 2 d1))) r1)"
    by simp
next
  obtain d1' err1 r1' where p: "Read 2 (reader c) = ((d1', err1), r1')"
    by (metis surj_pair)
  obtain d2' err2 r2' where b: "Read (unat (Uint16 (filled 2 d1'))) r1' = ((d2', err2), r2')"
    by (metis surj_pair)
  show "\<exists>ns. read_calls (trace (snd (ReadMessage c))) = read_calls (trace c) @ 2 # ns \<and>
         length ns \<le> 1"
  proof (cases err1)
    case (Some e')
    with p show ?thesis
      by (simp add: ReadMessage_prefix_failed read_calls_append)
  next
    case None
    with p b show ?thesis
      by (cases err2) (simp_all add: ReadMessage_body_failed ReadMessage_body_read read_calls_append)
  qed
next
  assume h: "Read 2 (reader c) = ((d1, None), r1) \<and> n = unat (Uint16 (filled 2 d1)) \<and>
    Read n r1 = ((d2, None), r2) \<and> length d2 < n"
  then show "read_calls (trace (snd (ReadMessage c))) = read_calls (trace c) @ [2, n]"
    and "fst (ReadMessage c) = (d2 @ replicate (n - length d2) 0, None)"
    and "length (fst (fst (ReadMessage c))) = n"
    and "reader (snd (ReadMessage c)) = r2"
    by (auto simp add: ReadMessage_body_read read_calls_append filled_short)
qed

theorem ReadMessage_one_read_each_witness:
  "Read 2 (reader fresh) = (([], Some ''EOF''), []) \<and>
   read_calls (trace (snd (ReadMessage fresh))) = [2] \<and>
   Read 2 (reader (NewTCPConnection ''c-1'' whole_peer)) =
     (([2, 0], None), [Data [1, 2], Fail ''connection reset by peer'']) \<and>
   read_calls (trace (snd (ReadMessage (NewTCPConnection ''c-1'' whole_peer)))) = [2, 2] \<and>
   reader (snd (ReadMessage (NewTCPConnection ''c-1'' whole_peer))) =
     [Fail ''connection reset by peer''] \<and>
   Read 2 (reader (NewTCPConnection ''c-1'' split_peer)) = (([2, 0], None), [Data [1], Data [2]]) \<and>
   unat (Uint16 (filled 2 [2, 0])) = 2 \<and>
   Read 2 [Data [1], Data [2]] = (([1], None), [Data [2]]) \<and>
   read_calls (trace (snd (ReadMessage (NewTCPConnection ''c-1'' split_peer)))) = [2, 2] \<and>
   fst (ReadMessage (NewTCPConnection ''c-1'' split_peer)) = ([1, 0], None) \<and>
   reader (snd (ReadMessage (NewTCPConnection ''c-1'' split_peer))) = [Data [2]]"
proof -
  have n: "unat (Uint16 (filled 2 [2, 0])) = 2"
    by (simp add: filled_def Uint16_bytes)
  have r0: "Read 2 (reader fresh) = (([], Some ''EOF''), [])"
    by (simp add: fresh_def NewTCPConnection_def quiet_peer_def)
  have rw: "Read 2 (reader (NewTCPConnection ''c-1'' whole_peer)) =
      (([2, 0], None), [Data [1, 2], Fail ''connection reset by peer''])"
    by (simp add: NewTCPConnection_def whole_peer_def)
  have rw2: "Read 2 [Data [1, 2], Fail ''connection reset by peer''] =
      (([1, 2], None), [Fail ''connection reset by peer''])"
    by simp
  have r1: "Read 2 (reader (NewTCPConnection ''c-1'' split_peer)) =
      (([2, 0], None), [Data [1], Data [2]])"
    by (simp add: NewTCPConnection_def split_peer_def)
  have r2: "Read 2 [Data [1], Data [2]] = (([1], None), [Data [2]])"
    by simp
  have t: "trace (NewTCPConnection ''c-1'' split_peer) = []"
    "trace (NewTCPConnection ''c-1'' whole_peer) = []" "trace fresh = []"
    by (simp_all add: NewTCPConnection_def fresh_def)
  show ?thesis
    using n r0 rw rw2 r1 r2 t
      ReadMessage_one_read_each [where c = fresh and ?d0.0 = "[]" and e = "''EOF''"
        and ?r0.0 = "[]"]
      ReadMessage_one_read_each [where c = "NewTCPConnection ''c-1'' whole_peer"
        and ?d1.0 = "[2, 0]" and ?r1.0 = "[Data [1, 2], Fail ''connection reset by peer'']"]
      ReadMessage_one_read_each [where c = "NewTCPConnection ''c-1'' split_peer"
        and ?d1.0 = "[2, 0]" and ?r1.0 = "[Data [1], Data [2]]" and n = 2 and ?d2.0 = "[1]"
        and ?r2.0 = "[Data [2]]"]
    by simp
qed

text \<open>
  C2, at an input where the code departs from it. The peer writes the frame of the
  body \<open>[1, 2]\<close>, the four bytes \<open>[2, 0, 1, 2]\<close>, and the last byte reaches the reader
  after the first three. \<open>ReadMessage\<close> returns \<open>[1, 0]\<close> and no error: the body read
  delivers the one byte at hand, and its count is not looked at.
\<close>

theorem ReadMessage_split_frame:
  "frame [1, 2] = [2, 0, 1] @ [2] \<and>
   incoming split_peer = [Data [2, 0, 1], Data [2]] \<and>
   ReadMessage (NewTCPConnection ''c-1'' split_peer) =
     (([1, 0], None),
      (NewTCPConnection ''c-1'' split_peer)
        \<lparr>reader := [Data [2]], trace := [ReaderRead 2, ReaderRead 2]\<rparr>)"
proof -
  have "unat (Uint16 (filled 2 [2, 0])) = 2"
    by (simp add: filled_def Uint16_bytes)
  then show ?thesis
    by (simp add: frame_def le_bytes_2 split_peer_def NewTCPConnection_def ReadMessage_def
        filled_def)
qed

text \<open>
  X1. Where both reads fill their slices the frame does come back as it was sent: for
  a body \<open>b\<close> of at most 65535 bytes, if the prefix read delivers the two
  little-endian bytes of its length and the body read delivers \<open>b\<close>, \<open>ReadMessage\<close>
  returns \<open>b\<close> and no error, having called \<open>Read\<close> twice.
\<close>

theorem ReadMessage_full_reads:
  "length b \<le> 65535 \<Longrightarrow>
   Read 2 (reader c) = ((le_bytes 2 (length b), None), r1) \<Longrightarrow>
   Read (length b) r1 = ((b, None), r2) \<Longrightarrow>
   ReadMessage c =
     ((b, None), c\<lparr>reader := r2, trace := trace c @ [ReaderRead 2, ReaderRead (length b)]\<rparr>)"
proof -
  assume len: "length b \<le> 65535"
    and p: "Read 2 (reader c) = ((le_bytes 2 (length b), None), r1)"
    and b: "Read (length b) r1 = ((b, None), r2)"
  have n: "unat (Uint16 (filled 2 (le_bytes 2 (length b)))) = length b"
    using len by (simp add: filled_full length_le_bytes Uint16_le_bytes)
  show ?thesis
    using ReadMessage_body_read [OF p, of b r2] b n
    by (simp add: filled_full)
qed

theorem ReadMessage_full_reads_witness:
  "frame [1, 2] = [2, 0, 1, 2] \<and>
   Read 2 (reader (NewTCPConnection ''c-1'' whole_peer)) =
     ((le_bytes 2 (length [1, 2 :: byte]), None),
      [Data [1, 2], Fail ''connection reset by peer'']) \<and>
   Read (length [1, 2 :: byte]) [Data [1, 2], Fail ''connection reset by peer''] =
     (([1, 2], None), [Fail ''connection reset by peer'']) \<and>
   fst (ReadMessage (NewTCPConnection ''c-1'' whole_peer)) = ([1, 2], None)"
  using ReadMessage_full_reads [of "[1, 2]" "NewTCPConnection ''c-1'' whole_peer"
      "[Data [1, 2], Fail ''connection reset by peer'']" "[Fail ''connection reset by peer'']"]
  by (simp add: NewTCPConnection_def whole_peer_def frame_def le_bytes_2)

section \<open>The accept loop\<close>

text \<open>
  An iteration whose accept fails with an error other than the closed-listener one,
  while no stop is requested: the error is logged and the iteration goes on to call
  \<open>RemoteAddr\<close> on the nil connection the failed accept returned.
\<close>

lemma accept_loop_transient_error:
  "\<not> stopping_top r \<Longrightarrow> accepted r = (None, Some e) \<Longrightarrow>
   \<not> strings_Contains e ''use of closed network connection'' \<Longrightarrow>
   accept_loop (r # rs) tr =
     (Panic nil_deref, tr @ [LoggedError e])"
  by simp

text \<open>
  X2. An accept error whose message contains the closed-listener text ends the loop:
  \<open>Start\<close> returns no error, and the error is not logged.
\<close>

theorem accept_loop_listener_closed:
  "\<not> stopping_top r \<Longrightarrow> accepted r = (c, Some e) \<Longrightarrow>
   strings_Contains e ''use of closed network connection'' \<Longrightarrow>
   accept_loop (r # rs) tr = (Returned None, tr)"
  by simp

theorem accept_loop_listener_closed_witness:
  "strings_Contains ''accept tcp 0.0.0.0:9000: use of closed network connection''
     ''use of closed network connection'' \<and>
   accept_loop
     [transient_round
        \<lparr>accepted := (None, Some ''accept tcp 0.0.0.0:9000: use of closed network connection'')\<rparr>,
      good_round] [] = (Returned None, [])"
  using accept_loop_listener_closed
    [of "transient_round
          \<lparr>accepted := (None, Some ''accept tcp 0.0.0.0:9000: use of closed network connection'')\<rparr>"
      None "''accept tcp 0.0.0.0:9000: use of closed network connection''" "[good_round]" "[]"]
  by (simp add: transient_round_def)

text \<open>
  X3. A socket accepted while no stop is requested is announced in the debug log,
  wrapped in a new connection and sent on the channel; once a consumer has received
  it the loop goes on with the next accept.
\<close>

theorem accept_loop_delivers:
  "\<not> stopping_top r \<Longrightarrow> accepted r = (Some s, None) \<Longrightarrow> \<not> stopping_mid r \<Longrightarrow>
   send r = Received \<Longrightarrow>
   accept_loop (r # rs) tr =
     accept_loop rs (tr @ [LoggedDebug (''Client connected: '' @ RemoteAddr s),
        Sent (NewTCPConnection (new_id r) s)])"
  by simp

theorem accept_loop_delivers_witness:
  "\<not> stopping_top good_round \<and> accepted good_round = (Some quiet_peer, None) \<and>
   \<not> stopping_mid good_round \<and> send good_round = Received \<and>
   accept_loop [good_round] [] =
     (Blocked, [LoggedDebug ''Client connected: 10.0.0.7:51234'',
        Sent (NewTCPConnection ''c-2'' quiet_peer)])"
  using accept_loop_delivers [of good_round quiet_peer "[]" "[]"]
  by (simp add: good_round_def quiet_peer_def)

text \<open>
  C5, at an input where the code departs from it. The listener is bound, no stop has
  been requested, and the first accept fails because the process is out of file
  descriptors; a second client would be accepted and delivered next. \<open>Start\<close> logs
  the error and then faults on the nil connection: the second accept is never
  reached and nothing is delivered.
\<close>

theorem Start_transient_accept_error:
  "\<not> strings_Contains ''accept tcp 0.0.0.0:9000: accept4: too many open files''
        ''use of closed network connection'' \<and>
   Start ''0.0.0.0:9000'' None [transient_round, good_round] =
     (Panic nil_deref,
      [LoggedInfo ''TCP Server listening on 0.0.0.0:9000'',
       LoggedError ''accept tcp 0.0.0.0:9000: accept4: too many open files''])"
  by (simp add: Start_def transient_round_def)

text \<open>Without the failed accept the same client is delivered.\<close>

lemma Start_good_round:
  "Start ''0.0.0.0:9000'' None [good_round] =
     (Blocked,
      [LoggedInfo ''TCP Server listening on 0.0.0.0:9000'',
       LoggedDebug ''Client connected: 10.0.0.7:51234'',
       Sent (NewTCPConnection ''c-2'' quiet_peer)])"
  by (simp add: Start_def good_round_def quiet_peer_def)

end
